theory Spec2Isabelle
  imports Main
begin

section \<open>The CI matrix generator of \<^verbatim>\<open>.circleci/regenerate.py\<close>\<close>

text \<open>
  The generator builds Python dictionaries and hands them to \<^verbatim>\<open>yaml.dump\<close>.
  A job dictionary has the keys \<^verbatim>\<open>name\<close>, \<^verbatim>\<open>python_version\<close>, \<^verbatim>\<open>context\<close>,
  \<^verbatim>\<open>requires\<close> and \<^verbatim>\<open>filters\<close>; every key except \<^verbatim>\<open>name\<close> is optional, and an
  absent key is \<open>None\<close>. Each emitted descriptor is a dictionary with one key (the
  CircleCI job being instantiated) whose value is the job dictionary: a pair.
  Python strings are modelled as \<open>string\<close>; \<^verbatim>\<open>filter_branch\<close> is \<^verbatim>\<open>None\<close> or a string;
  \<^verbatim>\<open>upload\<close> is only ever tested for truth and is a \<open>bool\<close>. The key \<^verbatim>\<open>context\<close> is the
  field \<open>job_context\<close>, and a parameter called \<^verbatim>\<open>python_version\<close> in the script is
  written \<open>python_version'\<close>, since the field has that name. The script has no
  \<^verbatim>\<open>raise\<close> and no \<^verbatim>\<open>assert\<close>, and the functions that build descriptors have no
  operation that fails on strings, so they return plain values. The one operation that can
  fail is the string repetition in \<^verbatim>\<open>indent\<close>, whose count must fit a machine index;
  \<^verbatim>\<open>indent\<close> and the two entry points that call it return \<open>error + string\<close>.
  Exhaustion of memory is outside the model.
\<close>

subsection \<open>Data model\<close>

record filter_tree =
  branches_only :: "string list"
  tags_only :: string

record job =
  name :: string
  python_version :: "string option"
  job_context :: "string option"
  requires :: "string list option"
  filters :: "filter_tree option"

type_synonym descriptor = "string \<times> job"

subsection \<open>Python primitives used by the script\<close>

text \<open>\<^verbatim>\<open>if filter_branch:\<close> is false for \<^verbatim>\<open>None\<close> and for the empty string.\<close>

fun truthy :: "string option \<Rightarrow> bool" where
  "truthy None = False"
| "truthy (Some s) = (s \<noteq> [])"

text \<open>\<^verbatim>\<open>s.startswith(p)\<close>\<close>

fun startswith :: "string \<Rightarrow> string \<Rightarrow> bool" where
  "startswith s [] = True"
| "startswith [] (p # ps) = False"
| "startswith (c # cs) (p # ps) = (c = p \<and> startswith cs ps)"

text \<open>
  \<^verbatim>\<open>s * n\<close> for a string \<open>s\<close> and an integer \<open>n\<close>. CPython on a 64-bit platform
  converts the count to a signed 64-bit index first and raises \<^verbatim>\<open>OverflowError\<close> when it does not fit, for counts
  from \<open>2 ^ 63\<close> upward and for counts below \<open>- (2 ^ 63)\<close>; a count in range that is not
  positive gives the empty string.
\<close>

datatype error = OverflowError

definition str_mul :: "string \<Rightarrow> int \<Rightarrow> error + string" where
  "str_mul s n =
     (if n < - (2 ^ 63) \<or> 2 ^ 63 \<le> n then Inl OverflowError
      else Inr (concat (replicate (nat n) s)))"

text \<open>
  \<^verbatim>\<open>str.splitlines()\<close>: the line boundaries that fit in one byte are LF, CR, CR LF,
  VT, FF, FS, GS, RS and NEL; a last line without a boundary is kept when it is not empty.
\<close>

definition is_linebreak :: "char \<Rightarrow> bool" where
  "is_linebreak c = (c \<in> {CHR 0x0A, CHR 0x0B, CHR 0x0C, CHR 0x0D, CHR 0x1C, CHR 0x1D, CHR 0x1E, CHR 0x85})"

fun splitlines_from :: "string \<Rightarrow> string \<Rightarrow> string list" where
  "splitlines_from cur [] = (if cur = [] then [] else [cur])"
| "splitlines_from cur [c] =
     (if is_linebreak c then [cur] else [cur @ [c]])"
| "splitlines_from cur (c # d # cs) =
     (if c = CHR 0x0D \<and> d = CHR 0x0A then cur # splitlines_from [] cs
      else if is_linebreak c then cur # splitlines_from [] (d # cs)
      else splitlines_from (cur @ [c]) (d # cs))"

definition splitlines :: "string \<Rightarrow> string list" where
  "splitlines s = splitlines_from [] s"

text \<open>\<^verbatim>\<open>sep.join(parts)\<close>\<close>

fun join :: "string \<Rightarrow> string list \<Rightarrow> string" where
  "join sep [] = []"
| "join sep [x] = x"
| "join sep (x # y # ys) = x @ sep @ join sep (y # ys)"

subsection \<open>The script\<close>

definition PYTHON_VERSIONS :: "string list" where
  "PYTHON_VERSIONS = [''3.6'', ''3.7'', ''3.8'']"

definition gen_filter_branch_tree :: "string list \<Rightarrow> filter_tree" where
  "gen_filter_branch_tree branches =
     \<lparr>branches_only = branches,
      tags_only = ''/v[0-9]+('' @ [CHR 0x5C] @ ''.[0-9]+)*-rc[0-9]+/''\<rparr>"

definition build_download_job :: "string option \<Rightarrow> descriptor list" where
  "build_download_job filter_branch =
     (let job = \<lparr>name = ''download_third_parties_nix'', python_version = None,
                 job_context = None, requires = None, filters = None\<rparr>;
          job = (if truthy filter_branch
                 then job\<lparr>filters := Some (gen_filter_branch_tree [the filter_branch])\<rparr>
                 else job)
      in [(''download_third_parties_nix'', job)])"

definition generate_base_workflow ::
  "string \<Rightarrow> string \<Rightarrow> string option \<Rightarrow> string \<Rightarrow> string \<Rightarrow> descriptor" where
  "generate_base_workflow base_workflow_name python_version' filter_branch os_type btype =
     (let d = \<lparr>name = base_workflow_name, python_version = Some python_version',
               job_context = None, requires = None, filters = None\<rparr>;
          d = (if os_type \<in> set [''linux'', ''macos'']
               then d\<lparr>requires := Some [''download_third_parties_nix'']\<rparr> else d);
          d = (if truthy filter_branch
               then d\<lparr>filters := Some (gen_filter_branch_tree [the filter_branch])\<rparr>
               else d)
      in (''binary_'' @ os_type @ ''_'' @ btype, d))"

definition generate_upload_workflow :: "string \<Rightarrow> string option \<Rightarrow> string \<Rightarrow> descriptor" where
  "generate_upload_workflow base_workflow_name filter_branch btype =
     (let d = \<lparr>name = base_workflow_name @ ''_upload'', python_version = None,
               job_context = Some ''org-member'', requires = Some [base_workflow_name],
               filters = None\<rparr>;
          d = (if truthy filter_branch
               then d\<lparr>filters := Some (gen_filter_branch_tree [the filter_branch])\<rparr>
               else d)
      in (''binary_'' @ btype @ ''_upload'', d))"

definition generate_smoketest_workflow ::
  "string \<Rightarrow> string \<Rightarrow> string option \<Rightarrow> string \<Rightarrow> string \<Rightarrow> descriptor" where
  "generate_smoketest_workflow pydistro base_workflow_name filter_branch python_version' os_type =
     (let required_build_suffix = ''_upload'';
          required_build_name = base_workflow_name @ required_build_suffix;
          smoke_suffix = ''smoke_test_'' @ pydistro;
          d = \<lparr>name = base_workflow_name @ ''_'' @ smoke_suffix,
               python_version = Some python_version', job_context = None,
               requires = Some [required_build_name], filters = None\<rparr>;
          d = (if truthy filter_branch
               then d\<lparr>filters := Some (gen_filter_branch_tree [the filter_branch])\<rparr>
               else d)
      in (''smoke_test_'' @ os_type @ ''_'' @ pydistro, d))"

definition build_workflow_pair ::
  "string \<Rightarrow> string \<Rightarrow> string \<Rightarrow> string option \<Rightarrow> string \<Rightarrow> bool \<Rightarrow> descriptor list" where
  "build_workflow_pair btype os_type python_version' filter_branch prefix upload =
     (let w = [];
          base_workflow_name =
            prefix @ ''binary_'' @ os_type @ ''_'' @ btype @ ''_py'' @ python_version';
          w = w @ [generate_base_workflow base_workflow_name python_version' filter_branch
                     os_type btype]
      in if upload then
           (let is_py3_linux = (os_type \<in> set [''linux'', ''windows'']
                                 \<and> \<not> startswith python_version' ''2.'');
                w = w @ [generate_upload_workflow base_workflow_name filter_branch btype]
            in if filter_branch = Some ''nightly'' \<and> is_py3_linux then
                 (let pydistro = (if btype = ''wheel'' then ''pip'' else ''conda'')
                  in w @ [generate_smoketest_workflow pydistro base_workflow_name
                            filter_branch python_version' os_type])
               else w)
         else w)"

text \<open>
  The three nested \<^verbatim>\<open>for\<close> loops of \<^verbatim>\<open>build_workflows\<close>, each extending the
  accumulator \<^verbatim>\<open>w\<close>; \<open>build_workflows_jobs\<close> is the list handed to \<^verbatim>\<open>indent\<close>.
\<close>

definition build_workflows_jobs :: "string \<Rightarrow> bool \<Rightarrow> string option \<Rightarrow> descriptor list" where
  "build_workflows_jobs prefix upload filter_branch =
     foldl (\<lambda>w btype.
       foldl (\<lambda>w os_type.
         foldl (\<lambda>w python_version'.
             w @ build_workflow_pair btype os_type python_version' filter_branch prefix upload)
           w PYTHON_VERSIONS)
         w [''linux'', ''macos'', ''windows''])
       (build_download_job filter_branch) [''wheel'', ''conda'']"

text \<open>
  \<^verbatim>\<open>yaml.dump\<close> belongs to an external library; it is the parameter \<open>dump\<close>, taken
  to return a string. The separator \<^verbatim>\<open>"\n" + " " * indentation\<close> is evaluated before
  \<^verbatim>\<open>yaml.dump\<close> is called, so a count out of range fails whatever the data.
\<close>

definition indent ::
  "(descriptor list \<Rightarrow> string) \<Rightarrow> int \<Rightarrow> descriptor list \<Rightarrow> error + string" where
  "indent dump indentation data_list =
     (case str_mul '' '' indentation of
        Inl e \<Rightarrow> Inl e
      | Inr spaces \<Rightarrow> Inr (join ([CHR 0x0A] @ spaces) (splitlines (dump data_list))))"

definition build_workflows ::
  "(descriptor list \<Rightarrow> string) \<Rightarrow> string \<Rightarrow> bool \<Rightarrow> string option \<Rightarrow> int
     \<Rightarrow> error + string" where
  "build_workflows dump prefix upload filter_branch indentation =
     indent dump indentation (build_workflows_jobs prefix upload filter_branch)"

text \<open>The body of the innermost loop of \<^verbatim>\<open>unittest_workflows\<close>.\<close>

definition unittest_step ::
  "string \<Rightarrow> string \<Rightarrow> descriptor list \<Rightarrow> nat \<times> string \<Rightarrow> descriptor list" where
  "unittest_step os_type device_type jobs ip =
     (let i = fst ip; python_version' = snd ip;
          job = \<lparr>name = ''unittest_'' @ os_type @ ''_'' @ device_type @ ''_py'' @ python_version',
                 python_version = Some python_version', job_context = None,
                 requires = None, filters = None\<rparr>;
          job = (if device_type = ''gpu''
                 then job\<lparr>filters := Some (gen_filter_branch_tree [''master'', ''nightly''])\<rparr>
                 else job);
          job = (if os_type \<noteq> ''windows''
                 then job\<lparr>requires := Some [''download_third_parties_nix'']\<rparr> else job);
          jobs = jobs @ [(''unittest_'' @ os_type @ ''_'' @ device_type, job)]
      in if i = 0 \<and> os_type = ''linux'' \<and> device_type = ''cpu''
         then jobs @ [(''stylecheck'',
                       \<lparr>name = ''stylecheck_py'' @ python_version',
                        python_version = Some python_version', job_context = None,
                        requires = None, filters = None\<rparr>)]
         else jobs)"

definition unittest_workflows_jobs :: "descriptor list" where
  "unittest_workflows_jobs =
     foldl (\<lambda>jobs os_type.
       foldl (\<lambda>jobs device_type.
           foldl (unittest_step os_type device_type) jobs (enumerate 0 PYTHON_VERSIONS))
         jobs [''cpu'', ''gpu''])
       (build_download_job None) [''linux'', ''windows'']"

definition unittest_workflows ::
  "(descriptor list \<Rightarrow> string) \<Rightarrow> int \<Rightarrow> error + string" where
  "unittest_workflows dump indentation = indent dump indentation unittest_workflows_jobs"

subsection \<open>Vocabulary for the properties\<close>

text \<open>\<^verbatim>\<open>s.endswith(p)\<close>\<close>

definition endswith :: "string \<Rightarrow> string \<Rightarrow> bool" where
  "endswith s p = startswith (rev s) (rev p)"

text \<open>
  The name every chain starts from, as \<^verbatim>\<open>build_workflow_pair\<close> formats it.
\<close>

definition base_name :: "string \<Rightarrow> string \<Rightarrow> string \<Rightarrow> string \<Rightarrow> string" where
  "base_name prefix os_type btype pv =
     prefix @ ''binary_'' @ os_type @ ''_'' @ btype @ ''_py'' @ pv"

text \<open>
  The role of a descriptor is read off the key of its one-entry dictionary:
  \<^verbatim>\<open>download_third_parties_nix\<close>, \<^verbatim>\<open>binary_{os}_{btype}\<close>, \<^verbatim>\<open>binary_{btype}_upload\<close>,
  \<^verbatim>\<open>smoke_test_{os}_{pydistro}\<close>, \<^verbatim>\<open>stylecheck\<close>.
\<close>

definition is_download :: "descriptor \<Rightarrow> bool" where
  "is_download d = (fst d = ''download_third_parties_nix'')"

definition is_upload :: "descriptor \<Rightarrow> bool" where
  "is_upload d = (startswith (fst d) ''binary_'' \<and> endswith (fst d) ''_upload'')"

definition is_base :: "descriptor \<Rightarrow> bool" where
  "is_base d = (startswith (fst d) ''binary_'' \<and> \<not> endswith (fst d) ''_upload'')"

definition is_smoketest :: "descriptor \<Rightarrow> bool" where
  "is_smoketest d = startswith (fst d) ''smoke_test_''"

definition is_stylecheck :: "descriptor \<Rightarrow> bool" where
  "is_stylecheck d = (fst d = ''stylecheck'')"

text \<open>The triples the loops of \<^verbatim>\<open>build_workflows\<close> visit, in iteration order.\<close>

definition build_matrix :: "(string \<times> string \<times> string) list" where
  "build_matrix = List.product [''wheel'', ''conda'']
                    (List.product [''linux'', ''macos'', ''windows''] PYTHON_VERSIONS)"

section \<open>Properties\<close>

subsection \<open>The generators, one field at a time\<close>

lemma build_workflow_pair_chain:
  "build_workflow_pair btype os_type pv fb prefix upload =
     generate_base_workflow (base_name prefix os_type btype pv) pv fb os_type btype #
     (if upload then
        generate_upload_workflow (base_name prefix os_type btype pv) fb btype #
        (if fb = Some ''nightly'' \<and> (os_type = ''linux'' \<or> os_type = ''windows'')
              \<and> \<not> startswith pv ''2.''
         then [generate_smoketest_workflow (if btype = ''wheel'' then ''pip'' else ''conda'')
                 (base_name prefix os_type btype pv) fb pv os_type]
         else [])
      else [])"
  by (auto simp add: build_workflow_pair_def base_name_def Let_def)

lemma fst_generate_base_workflow:
  "fst (generate_base_workflow n pv fb os_type btype) = ''binary_'' @ os_type @ ''_'' @ btype"
  by (simp add: generate_base_workflow_def Let_def)

lemma fst_generate_upload_workflow:
  "fst (generate_upload_workflow n fb btype) = ''binary_'' @ btype @ ''_upload''"
  by (simp add: generate_upload_workflow_def Let_def)

lemma fst_generate_smoketest_workflow:
  "fst (generate_smoketest_workflow pd n fb pv os_type) = ''smoke_test_'' @ os_type @ ''_'' @ pd"
  by (simp add: generate_smoketest_workflow_def Let_def)

lemmas fst_generate =
  fst_generate_base_workflow fst_generate_upload_workflow fst_generate_smoketest_workflow

lemma name_generate_base_workflow:
  "name (snd (generate_base_workflow n pv fb os_type btype)) = n"
  by (simp add: generate_base_workflow_def Let_def)

lemma name_generate_upload_workflow:
  "name (snd (generate_upload_workflow n fb btype)) = n @ ''_upload''"
  by (simp add: generate_upload_workflow_def Let_def)

lemma name_generate_smoketest_workflow:
  "name (snd (generate_smoketest_workflow pd n fb pv os_type)) = n @ ''_smoke_test_'' @ pd"
  by (simp add: generate_smoketest_workflow_def Let_def)

lemmas name_generate =
  name_generate_base_workflow name_generate_upload_workflow name_generate_smoketest_workflow

lemma is_smoketest_generate:
  "\<not> is_smoketest (generate_base_workflow n pv fb os_type btype)"
  "\<not> is_smoketest (generate_upload_workflow n fb btype)"
  "is_smoketest (generate_smoketest_workflow pd n fb pv os_type)"
  by (simp_all add: is_smoketest_def fst_generate)

subsection \<open>The generated sequences\<close>

text \<open>
  The accumulating loops of \<^verbatim>\<open>build_workflows\<close> produce the download descriptor followed
  by the chains of \<^verbatim>\<open>build_workflow_pair\<close> over the matrix, in iteration order.
\<close>

lemma build_workflows_jobs_chains:
  "build_workflows_jobs prefix upload fb =
     build_download_job fb @
     concat (map (\<lambda>(btype, os_type, pv). build_workflow_pair btype os_type pv fb prefix upload)
               build_matrix)"
  by (simp add: build_workflows_jobs_def build_matrix_def PYTHON_VERSIONS_def)

subsection \<open>Roles of the generated descriptors\<close>

lemma startswith_append [simp]: "startswith (p @ s) p"
  by (induction p) simp_all

lemma endswith_append [simp]: "endswith (s @ p) p"
  by (simp add: endswith_def)

lemma is_upload_generate_upload: "is_upload (generate_upload_workflow n fb btype)"
  using startswith_append [of "''binary_''" "btype @ ''_upload''"]
    endswith_append [of "''binary_'' @ btype" "''_upload''"]
  by (simp add: is_upload_def fst_generate del: startswith_append endswith_append)

lemma not_is_upload_smoketest: "\<not> is_upload (generate_smoketest_workflow pd n fb pv os_type)"
  by (simp add: is_upload_def fst_generate)

lemma requires_generate_upload_workflow:
  "requires (snd (generate_upload_workflow n fb btype)) = Some [n]"
  by (simp add: generate_upload_workflow_def Let_def)

lemma requires_generate_smoketest_workflow:
  "requires (snd (generate_smoketest_workflow pd n fb pv os_type)) = Some [n @ ''_upload'']"
  by (simp add: generate_smoketest_workflow_def Let_def)

lemma is_download_build_download_job:
  "build_download_job fb = [d] \<Longrightarrow> is_download d \<and> \<not> is_upload d \<and> \<not> is_smoketest d"
  by (auto simp add: build_download_job_def Let_def is_download_def is_upload_def is_smoketest_def)

lemma is_base_generate_base:
  "btype = ''wheel'' \<or> btype = ''conda'' \<Longrightarrow>
     is_base (generate_base_workflow n pv fb os_type btype) \<and>
     \<not> is_upload (generate_base_workflow n pv fb os_type btype)"
  using startswith_append [of "''binary_''" "os_type @ ''_'' @ btype"]
  by (auto simp add: is_base_def is_upload_def endswith_def fst_generate
        simp del: startswith_append)

subsection \<open>Positions in the sequences\<close>

lemma adjacent_in_zip:
  "j = i + 1 \<Longrightarrow> j < length xs \<Longrightarrow> (xs ! i, xs ! j) \<in> set (zip xs (tl xs))"
proof -
  assume j: "j = i + 1" and h: "j < length xs"
  then have "i < length (tl xs)" by simp
  moreover from j h have "i < length xs" by simp
  moreover from j h have "tl xs ! i = xs ! j" by (simp add: nth_tl)
  ultimately show ?thesis
    by (metis in_set_zip fst_conv snd_conv)
qed

lemma nightly_jobs_prefix:
  "take 7 (build_workflows_jobs ''x_'' True (Some ''nightly'')) =
     build_download_job (Some ''nightly'') @
     build_workflow_pair ''wheel'' ''linux'' ''3.6'' (Some ''nightly'') ''x_'' True @
     build_workflow_pair ''wheel'' ''linux'' ''3.7'' (Some ''nightly'') ''x_'' True"
  "length (build_workflows_jobs ''x_'' True (Some ''nightly'')) = 49"
  by (simp_all add: build_workflows_jobs_def PYTHON_VERSIONS_def build_workflow_pair_chain
      build_download_job_def Let_def)

text \<open>The sequence of \<^verbatim>\<open>unittest_workflows\<close>, evaluated.\<close>

lemma unittest_workflows_jobs_value:
  "unittest_workflows_jobs =
    [(''download_third_parties_nix'',
      \<lparr>name = ''download_third_parties_nix'', python_version = None, job_context = None,
       requires = None, filters = None\<rparr>),
     (''unittest_linux_cpu'',
      \<lparr>name = ''unittest_linux_cpu_py3.6'', python_version = Some ''3.6'', job_context = None,
       requires = Some [''download_third_parties_nix''], filters = None\<rparr>),
     (''stylecheck'',
      \<lparr>name = ''stylecheck_py3.6'', python_version = Some ''3.6'', job_context = None,
       requires = None, filters = None\<rparr>),
     (''unittest_linux_cpu'',
      \<lparr>name = ''unittest_linux_cpu_py3.7'', python_version = Some ''3.7'', job_context = None,
       requires = Some [''download_third_parties_nix''], filters = None\<rparr>),
     (''unittest_linux_cpu'',
      \<lparr>name = ''unittest_linux_cpu_py3.8'', python_version = Some ''3.8'', job_context = None,
       requires = Some [''download_third_parties_nix''], filters = None\<rparr>),
     (''unittest_linux_gpu'',
      \<lparr>name = ''unittest_linux_gpu_py3.6'', python_version = Some ''3.6'', job_context = None,
       requires = Some [''download_third_parties_nix''],
       filters = Some (gen_filter_branch_tree [''master'', ''nightly''])\<rparr>),
     (''unittest_linux_gpu'',
      \<lparr>name = ''unittest_linux_gpu_py3.7'', python_version = Some ''3.7'', job_context = None,
       requires = Some [''download_third_parties_nix''],
       filters = Some (gen_filter_branch_tree [''master'', ''nightly''])\<rparr>),
     (''unittest_linux_gpu'',
      \<lparr>name = ''unittest_linux_gpu_py3.8'', python_version = Some ''3.8'', job_context = None,
       requires = Some [''download_third_parties_nix''],
       filters = Some (gen_filter_branch_tree [''master'', ''nightly''])\<rparr>),
     (''unittest_windows_cpu'',
      \<lparr>name = ''unittest_windows_cpu_py3.6'', python_version = Some ''3.6'', job_context = None,
       requires = None, filters = None\<rparr>),
     (''unittest_windows_cpu'',
      \<lparr>name = ''unittest_windows_cpu_py3.7'', python_version = Some ''3.7'', job_context = None,
       requires = None, filters = None\<rparr>),
     (''unittest_windows_cpu'',
      \<lparr>name = ''unittest_windows_cpu_py3.8'', python_version = Some ''3.8'', job_context = None,
       requires = None, filters = None\<rparr>),
     (''unittest_windows_gpu'',
      \<lparr>name = ''unittest_windows_gpu_py3.6'', python_version = Some ''3.6'', job_context = None,
       requires = None, filters = Some (gen_filter_branch_tree [''master'', ''nightly''])\<rparr>),
     (''unittest_windows_gpu'',
      \<lparr>name = ''unittest_windows_gpu_py3.7'', python_version = Some ''3.7'', job_context = None,
       requires = None, filters = Some (gen_filter_branch_tree [''master'', ''nightly''])\<rparr>),
     (''unittest_windows_gpu'',
      \<lparr>name = ''unittest_windows_gpu_py3.8'', python_version = Some ''3.8'', job_context = None,
       requires = None, filters = Some (gen_filter_branch_tree [''master'', ''nightly''])\<rparr>)]"
  by (simp add: unittest_workflows_jobs_def unittest_step_def PYTHON_VERSIONS_def
        build_download_job_def enumerate_eq_zip Let_def upt_rec)

lemma filters_generate:
  "filters (snd (generate_base_workflow n pv fb os_type btype)) =
     (if truthy fb then Some (gen_filter_branch_tree [the fb]) else None)"
  "filters (snd (generate_upload_workflow n fb btype)) =
     (if truthy fb then Some (gen_filter_branch_tree [the fb]) else None)"
  "filters (snd (generate_smoketest_workflow pd n fb pv os_type)) =
     (if truthy fb then Some (gen_filter_branch_tree [the fb]) else None)"
  "d \<in> set (build_download_job fb) \<Longrightarrow>
     filters (snd d) = (if truthy fb then Some (gen_filter_branch_tree [the fb]) else None)"
  by (simp_all add: generate_base_workflow_def generate_upload_workflow_def
        generate_smoketest_workflow_def build_download_job_def Let_def)

lemma filters_build_workflow_pair:
  "d \<in> set (build_workflow_pair btype os_type pv fb prefix upload) \<Longrightarrow>
     filters (snd d) = (if truthy fb then Some (gen_filter_branch_tree [the fb]) else None)"
  by (auto simp add: build_workflow_pair_chain filters_generate split: if_splits)

lemma plain_jobs_prefix:
  "take 2 (build_workflows_jobs [] False fb) =
     build_download_job fb @ build_workflow_pair ''wheel'' ''linux'' ''3.6'' fb [] False"
  "length (build_workflows_jobs [] False fb) = 19"
  by (simp_all add: build_workflows_jobs_def PYTHON_VERSIONS_def build_workflow_pair_chain
      build_download_job_def Let_def)

lemma not_is_download_generate:
  "\<not> is_download (generate_base_workflow n pv fb os_type btype)"
  "\<not> is_download (generate_upload_workflow n fb btype)"
  "\<not> is_download (generate_smoketest_workflow pd n fb pv os_type)"
  by (simp_all add: is_download_def fst_generate)

lemma filter_is_download_pair:
  "filter is_download (build_workflow_pair btype os_type pv fb prefix upload) = []"
  by (simp add: build_workflow_pair_chain not_is_download_generate)

lemma build_download_job_single:
  "\<exists>j. build_download_job fb = [(''download_third_parties_nix'', j)]
        \<and> name j = ''download_third_parties_nix''"
  by (simp add: build_download_job_def Let_def)

lemma build_workflows_jobs_second:
  "build_workflows_jobs prefix upload fb ! Suc 0 =
     generate_base_workflow (base_name prefix ''linux'' ''wheel'' ''3.6'') ''3.6'' fb ''linux'' ''wheel''"
  "Suc 0 < length (build_workflows_jobs prefix upload fb)"
  by (simp_all add: build_workflows_jobs_def PYTHON_VERSIONS_def build_workflow_pair_chain
        build_download_job_def Let_def)

lemma download_name_neq:
  "s \<noteq> [] \<Longrightarrow> last s \<noteq> CHR ''x'' \<Longrightarrow> ''download_third_parties_nix'' \<noteq> p @ s"
proof
  assume s: "s \<noteq> []" and l: "last s \<noteq> CHR ''x''" and e: "''download_third_parties_nix'' = p @ s"
  from s have "last (p @ s) = last s" by simp
  with e [symmetric] have "last s = last ''download_third_parties_nix''" by simp
  with l show False by simp
qed

lemma name_build_download_job:
  "map (name \<circ> snd) (build_download_job fb) = [''download_third_parties_nix'']"
  by (simp add: build_download_job_def Let_def)

subsection \<open>Chaining\<close>

text \<open>
  C1. In the sequence \<^verbatim>\<open>build_workflows\<close> serialises, an upload descriptor directly follows
  a base descriptor and requires exactly that descriptor's name, its own name being the base
  name with \<^verbatim>\<open>_upload\<close> appended; a smoke-test descriptor directly follows an upload
  descriptor and requires exactly that upload descriptor's name. The sequence does not start
  with an upload or smoke-test descriptor, so every one of them has such a predecessor.
\<close>

theorem build_workflows_chaining:
  "\<not> is_upload (hd (build_workflows_jobs prefix upload fb)) \<and>
   \<not> is_smoketest (hd (build_workflows_jobs prefix upload fb)) \<and>
   (\<forall>(a, b) \<in> set (zip (build_workflows_jobs prefix upload fb)
                       (tl (build_workflows_jobs prefix upload fb))).
      (is_upload b \<longrightarrow> is_base a \<and> requires (snd b) = Some [name (snd a)]
                          \<and> name (snd b) = name (snd a) @ ''_upload'') \<and>
      (is_smoketest b \<longrightarrow> is_upload a \<and> requires (snd b) = Some [name (snd a)]))"
proof (intro conjI)
  obtain d where d: "build_download_job fb = [d]"
    by (simp add: build_download_job_def Let_def)
  note dl = is_download_build_download_job [OF d]
  have hd: "hd (build_workflows_jobs prefix upload fb) = d"
    by (simp add: build_workflows_jobs_chains d)
  show "\<not> is_upload (hd (build_workflows_jobs prefix upload fb))"
    using dl by (simp add: hd)
  show "\<not> is_smoketest (hd (build_workflows_jobs prefix upload fb))"
    using dl by (simp add: hd)
  show "\<forall>(a, b) \<in> set (zip (build_workflows_jobs prefix upload fb)
                       (tl (build_workflows_jobs prefix upload fb))).
      (is_upload b \<longrightarrow> is_base a \<and> requires (snd b) = Some [name (snd a)]
                          \<and> name (snd b) = name (snd a) @ ''_upload'') \<and>
      (is_smoketest b \<longrightarrow> is_upload a \<and> requires (snd b) = Some [name (snd a)])"
    by (cases upload; cases "fb = Some ''nightly''";
        simp add: build_workflows_jobs_def PYTHON_VERSIONS_def build_workflow_pair_chain
          build_download_job_def Let_def
          is_smoketest_generate is_upload_generate_upload not_is_upload_smoketest
          is_base_generate_base name_generate
          requires_generate_upload_workflow requires_generate_smoketest_workflow)
qed



theorem build_workflows_chaining_witness:
  "(build_workflows_jobs ''x_'' True (Some ''nightly'') ! 4,
    build_workflows_jobs ''x_'' True (Some ''nightly'') ! 5)
     \<in> set (zip (build_workflows_jobs ''x_'' True (Some ''nightly''))
                (tl (build_workflows_jobs ''x_'' True (Some ''nightly'')))) \<and>
   is_upload (build_workflows_jobs ''x_'' True (Some ''nightly'') ! 5) \<and>
   name (snd (build_workflows_jobs ''x_'' True (Some ''nightly'') ! 4)) = ''x_binary_linux_wheel_py3.7'' \<and>
   requires (snd (build_workflows_jobs ''x_'' True (Some ''nightly'') ! 5))
     = Some [''x_binary_linux_wheel_py3.7''] \<and>
   (build_workflows_jobs ''x_'' True (Some ''nightly'') ! 5,
    build_workflows_jobs ''x_'' True (Some ''nightly'') ! 6)
     \<in> set (zip (build_workflows_jobs ''x_'' True (Some ''nightly''))
                (tl (build_workflows_jobs ''x_'' True (Some ''nightly'')))) \<and>
   is_smoketest (build_workflows_jobs ''x_'' True (Some ''nightly'') ! 6) \<and>
   requires (snd (build_workflows_jobs ''x_'' True (Some ''nightly'') ! 6))
     = Some [''x_binary_linux_wheel_py3.7_upload'']"
proof -
  let ?J = "build_workflows_jobs ''x_'' True (Some ''nightly'')"
  have el: "?J ! 4 = generate_base_workflow ''x_binary_linux_wheel_py3.7'' ''3.7'' (Some ''nightly'') ''linux'' ''wheel''"
      "?J ! 5 = generate_upload_workflow ''x_binary_linux_wheel_py3.7'' (Some ''nightly'') ''wheel''"
      "?J ! 6 = generate_smoketest_workflow ''pip'' ''x_binary_linux_wheel_py3.7'' (Some ''nightly'') ''3.7'' ''linux''"
    using nth_take [of 4 7 ?J] nth_take [of 5 7 ?J] nth_take [of 6 7 ?J]
    by (simp_all add: nightly_jobs_prefix build_workflow_pair_chain build_download_job_def
          base_name_def Let_def)
  have m45: "(?J ! 4, ?J ! 5) \<in> set (zip ?J (tl ?J))"
    by (rule adjacent_in_zip) (simp_all add: nightly_jobs_prefix)
  have m56: "(?J ! 5, ?J ! 6) \<in> set (zip ?J (tl ?J))"
    by (rule adjacent_in_zip) (simp_all add: nightly_jobs_prefix)
  have up: "is_upload (?J ! 5)"
    by (simp add: el is_upload_generate_upload)
  have sm: "is_smoketest (?J ! 6)"
    by (simp add: el is_smoketest_generate)
  have nm: "name (snd (?J ! 4)) = ''x_binary_linux_wheel_py3.7''"
    by (simp add: el name_generate)
  note adj = build_workflows_chaining [of "''x_''" True "Some ''nightly''", THEN conjunct2, THEN conjunct2]
  from bspec [OF adj m45] up nm
  have r5: "requires (snd (?J ! 5)) = Some [''x_binary_linux_wheel_py3.7'']"
    by simp
  from bspec [OF adj m45] up nm
  have n5: "name (snd (?J ! 5)) = ''x_binary_linux_wheel_py3.7_upload''"
    by simp
  from bspec [OF adj m56] sm n5
  have r6: "requires (snd (?J ! 6)) = Some [''x_binary_linux_wheel_py3.7_upload'']"
    by simp
  from m45 m56 up sm nm r5 r6 show ?thesis by blast
qed


subsection \<open>Smoke-test eligibility\<close>

text \<open>
  C2. \<^verbatim>\<open>build_workflow_pair\<close> emits a smoke-test descriptor exactly when \<^verbatim>\<open>upload\<close> is
  true, \<^verbatim>\<open>filter_branch\<close> is \<^verbatim>\<open>"nightly"\<close>, the OS is linux or windows and the python
  version does not start with \<^verbatim>\<open>"2."\<close>; its channel, which appears in its key and in its
  name, is pip for a wheel and conda otherwise. For linux, wheel, 3.7 with the nightly filter
  and upload the chain is base, upload, smoke test over pip, each with the nightly filter,
  and it is the second chain of the sequence \<^verbatim>\<open>build_workflows\<close> serialises.
\<close>

theorem build_workflow_pair_smoketest_iff:
  "((\<exists>d \<in> set (build_workflow_pair btype os_type pv fb prefix upload). is_smoketest d) \<longleftrightarrow>
      (upload \<and> fb = Some ''nightly'' \<and> (os_type = ''linux'' \<or> os_type = ''windows'')
        \<and> \<not> startswith pv ''2.'')) \<and>
   (\<forall>d \<in> set (build_workflow_pair btype os_type pv fb prefix upload). is_smoketest d \<longrightarrow>
      fst d = ''smoke_test_'' @ os_type @ ''_'' @ (if btype = ''wheel'' then ''pip'' else ''conda'') \<and>
      name (snd d) = prefix @ ''binary_'' @ os_type @ ''_'' @ btype @ ''_py'' @ pv @ ''_smoke_test_''
                       @ (if btype = ''wheel'' then ''pip'' else ''conda'')) \<and>
   build_workflow_pair ''wheel'' ''linux'' ''3.7'' (Some ''nightly'') prefix True =
     [(''binary_linux_wheel'',
       \<lparr>name = prefix @ ''binary_linux_wheel_py3.7'', python_version = Some ''3.7'',
        job_context = None, requires = Some [''download_third_parties_nix''],
        filters = Some \<lparr>branches_only = [''nightly''],
                        tags_only = ''/v[0-9]+('' @ [CHR 0x5C] @ ''.[0-9]+)*-rc[0-9]+/''\<rparr>\<rparr>),
      (''binary_wheel_upload'',
       \<lparr>name = prefix @ ''binary_linux_wheel_py3.7_upload'', python_version = None,
        job_context = Some ''org-member'', requires = Some [prefix @ ''binary_linux_wheel_py3.7''],
        filters = Some \<lparr>branches_only = [''nightly''],
                        tags_only = ''/v[0-9]+('' @ [CHR 0x5C] @ ''.[0-9]+)*-rc[0-9]+/''\<rparr>\<rparr>),
      (''smoke_test_linux_pip'',
       \<lparr>name = prefix @ ''binary_linux_wheel_py3.7_smoke_test_pip'', python_version = Some ''3.7'',
        job_context = None, requires = Some [prefix @ ''binary_linux_wheel_py3.7_upload''],
        filters = Some \<lparr>branches_only = [''nightly''],
                        tags_only = ''/v[0-9]+('' @ [CHR 0x5C] @ ''.[0-9]+)*-rc[0-9]+/''\<rparr>\<rparr>)] \<and>
   take 3 (drop 4 (build_workflows_jobs prefix True (Some ''nightly''))) =
     build_workflow_pair ''wheel'' ''linux'' ''3.7'' (Some ''nightly'') prefix True"
proof (intro conjI)
  show "(\<exists>d \<in> set (build_workflow_pair btype os_type pv fb prefix upload). is_smoketest d) \<longleftrightarrow>
      (upload \<and> fb = Some ''nightly'' \<and> (os_type = ''linux'' \<or> os_type = ''windows'')
        \<and> \<not> startswith pv ''2.'')"
    by (cases upload; cases "fb = Some ''nightly''"; cases "os_type = ''linux''";
        cases "os_type = ''windows''"; cases "startswith pv ''2.''";
        simp add: build_workflow_pair_chain is_smoketest_generate)
  show "\<forall>d \<in> set (build_workflow_pair btype os_type pv fb prefix upload). is_smoketest d \<longrightarrow>
      fst d = ''smoke_test_'' @ os_type @ ''_'' @ (if btype = ''wheel'' then ''pip'' else ''conda'') \<and>
      name (snd d) = prefix @ ''binary_'' @ os_type @ ''_'' @ btype @ ''_py'' @ pv @ ''_smoke_test_''
                       @ (if btype = ''wheel'' then ''pip'' else ''conda'')"
    by (cases upload; cases "fb = Some ''nightly''"; cases "os_type = ''linux''";
        cases "os_type = ''windows''"; cases "startswith pv ''2.''";
        simp add: build_workflow_pair_chain is_smoketest_generate fst_generate
          name_generate_smoketest_workflow base_name_def)
  show "build_workflow_pair ''wheel'' ''linux'' ''3.7'' (Some ''nightly'') prefix True =
     [(''binary_linux_wheel'',
       \<lparr>name = prefix @ ''binary_linux_wheel_py3.7'', python_version = Some ''3.7'',
        job_context = None, requires = Some [''download_third_parties_nix''],
        filters = Some \<lparr>branches_only = [''nightly''],
                        tags_only = ''/v[0-9]+('' @ [CHR 0x5C] @ ''.[0-9]+)*-rc[0-9]+/''\<rparr>\<rparr>),
      (''binary_wheel_upload'',
       \<lparr>name = prefix @ ''binary_linux_wheel_py3.7_upload'', python_version = None,
        job_context = Some ''org-member'', requires = Some [prefix @ ''binary_linux_wheel_py3.7''],
        filters = Some \<lparr>branches_only = [''nightly''],
                        tags_only = ''/v[0-9]+('' @ [CHR 0x5C] @ ''.[0-9]+)*-rc[0-9]+/''\<rparr>\<rparr>),
      (''smoke_test_linux_pip'',
       \<lparr>name = prefix @ ''binary_linux_wheel_py3.7_smoke_test_pip'', python_version = Some ''3.7'',
        job_context = None, requires = Some [prefix @ ''binary_linux_wheel_py3.7_upload''],
        filters = Some \<lparr>branches_only = [''nightly''],
                        tags_only = ''/v[0-9]+('' @ [CHR 0x5C] @ ''.[0-9]+)*-rc[0-9]+/''\<rparr>\<rparr>)]"
    by (simp add: build_workflow_pair_def generate_base_workflow_def generate_upload_workflow_def
          generate_smoketest_workflow_def gen_filter_branch_tree_def Let_def)
  show "take 3 (drop 4 (build_workflows_jobs prefix True (Some ''nightly''))) =
     build_workflow_pair ''wheel'' ''linux'' ''3.7'' (Some ''nightly'') prefix True"
    by (simp add: build_workflows_jobs_def PYTHON_VERSIONS_def build_download_job_def
          build_workflow_pair_chain Let_def)
qed

theorem build_workflow_pair_smoketest_iff_witness:
  "(\<exists>d \<in> set (build_workflow_pair ''wheel'' ''linux'' ''3.7'' (Some ''nightly'') ''pre_'' True).
      is_smoketest d) \<and>
   (build_workflow_pair ''wheel'' ''linux'' ''3.7'' (Some ''nightly'') ''pre_'' True) ! 2
      \<in> set (build_workflow_pair ''wheel'' ''linux'' ''3.7'' (Some ''nightly'') ''pre_'' True) \<and>
   is_smoketest ((build_workflow_pair ''wheel'' ''linux'' ''3.7'' (Some ''nightly'') ''pre_'' True) ! 2) \<and>
   fst ((build_workflow_pair ''wheel'' ''linux'' ''3.7'' (Some ''nightly'') ''pre_'' True) ! 2)
     = ''smoke_test_linux_pip'' \<and>
   name (snd ((build_workflow_pair ''wheel'' ''linux'' ''3.7'' (Some ''nightly'') ''pre_'' True) ! 2))
     = ''pre_binary_linux_wheel_py3.7_smoke_test_pip'' \<and>
   \<not> (\<exists>d \<in> set (build_workflow_pair ''wheel'' ''macos'' ''3.7'' (Some ''nightly'') ''pre_'' True).
      is_smoketest d)"
proof -
  let ?c = "build_workflow_pair ''wheel'' ''linux'' ''3.7'' (Some ''nightly'') ''pre_'' True"
  note pos = build_workflow_pair_smoketest_iff
    [where btype = "''wheel''" and os_type = "''linux''" and pv = "''3.7''"
       and fb = "Some ''nightly''" and prefix = "''pre_''" and upload = True]
  note neg = build_workflow_pair_smoketest_iff
    [where btype = "''wheel''" and os_type = "''macos''" and pv = "''3.7''"
       and fb = "Some ''nightly''" and prefix = "''pre_''" and upload = True]
  have ex: "\<exists>d \<in> set ?c. is_smoketest d"
    using pos [THEN conjunct1] by simp
  have third: "?c ! 2 \<in> set ?c"
    by (simp add: pos [THEN conjunct2, THEN conjunct2, THEN conjunct1])
  have sm: "is_smoketest (?c ! 2)"
    by (simp add: pos [THEN conjunct2, THEN conjunct2, THEN conjunct1] is_smoketest_def)
  have flds: "fst (?c ! 2) = ''smoke_test_linux_pip'' \<and>
     name (snd (?c ! 2)) = ''pre_binary_linux_wheel_py3.7_smoke_test_pip''"
    using pos [THEN conjunct2, THEN conjunct1, rule_format, OF third sm] by simp
  have no: "\<not> (\<exists>d \<in> set (build_workflow_pair ''wheel'' ''macos'' ''3.7'' (Some ''nightly'') ''pre_'' True).
      is_smoketest d)"
    using neg [THEN conjunct1] by simp
  from ex third sm flds no show ?thesis by blast
qed

subsection \<open>The branch filter\<close>

text \<open>
  C7. For a non-empty list of branch names, the filter holds that list under
  \<^verbatim>\<open>branches: only\<close> and the release-candidate pattern under \<^verbatim>\<open>tags: only\<close>; the pattern
  is the same for every list of branches.
\<close>

theorem gen_filter_branch_tree_contents:
  "branches \<noteq> [] \<Longrightarrow>
     branches_only (gen_filter_branch_tree branches) = branches \<and>
     tags_only (gen_filter_branch_tree branches)
       = ''/v[0-9]+('' @ [CHR 0x5C] @ ''.[0-9]+)*-rc[0-9]+/'' \<and>
     tags_only (gen_filter_branch_tree branches) = tags_only (gen_filter_branch_tree others)"
  by (simp add: gen_filter_branch_tree_def)

theorem gen_filter_branch_tree_contents_witness:
  "[''master'', ''nightly''] \<noteq> ([] :: string list) \<and>
   branches_only (gen_filter_branch_tree [''master'', ''nightly'']) = [''master'', ''nightly''] \<and>
   tags_only (gen_filter_branch_tree [''master'', ''nightly''])
     = ''/v[0-9]+('' @ [CHR 0x5C] @ ''.[0-9]+)*-rc[0-9]+/'' \<and>
   tags_only (gen_filter_branch_tree [''master'', ''nightly''])
     = tags_only (gen_filter_branch_tree [''release''])"
proof -
  have h: "[''master'', ''nightly''] \<noteq> ([] :: string list)" by simp
  from gen_filter_branch_tree_contents [OF h, of "[''release'']"] h show ?thesis by blast
qed

subsection \<open>The dependency of a base build on the download job\<close>

text \<open>
  C10. A base build descriptor for linux or macos requires exactly
  \<^verbatim>\<open>download_third_parties_nix\<close>; one for windows has no \<^verbatim>\<open>requires\<close> key.
\<close>

theorem generate_base_workflow_requires:
  "(os_type = ''linux'' \<or> os_type = ''macos'' \<longrightarrow>
      requires (snd (generate_base_workflow n pv fb os_type btype))
        = Some [''download_third_parties_nix'']) \<and>
   (os_type = ''windows'' \<longrightarrow>
      requires (snd (generate_base_workflow n pv fb os_type btype)) = None)"
  by (simp add: generate_base_workflow_def Let_def)

theorem generate_base_workflow_requires_witness:
  "requires (snd (generate_base_workflow ''binary_linux_wheel_py3.6'' ''3.6'' None ''linux'' ''wheel''))
     = Some [''download_third_parties_nix''] \<and>
   requires (snd (generate_base_workflow ''binary_macos_conda_py3.8'' ''3.8'' (Some ''nightly'') ''macos'' ''conda''))
     = Some [''download_third_parties_nix''] \<and>
   requires (snd (generate_base_workflow ''binary_windows_wheel_py3.7'' ''3.7'' None ''windows'' ''wheel''))
     = None"
  using generate_base_workflow_requires
      [where os_type = "''linux''" and n = "''binary_linux_wheel_py3.6''" and pv = "''3.6''"
         and fb = None and btype = "''wheel''"]
    generate_base_workflow_requires
      [where os_type = "''macos''" and n = "''binary_macos_conda_py3.8''" and pv = "''3.8''"
         and fb = "Some ''nightly''" and btype = "''conda''"]
    generate_base_workflow_requires
      [where os_type = "''windows''" and n = "''binary_windows_wheel_py3.7''" and pv = "''3.7''"
         and fb = None and btype = "''wheel''"]
  by simp

subsection \<open>Presence of the branch filter\<close>

text \<open>
  C3, as the script has it. A descriptor in the sequence of \<^verbatim>\<open>build_workflows\<close> carries a
  \<^verbatim>\<open>filters\<close> entry exactly when \<^verbatim>\<open>filter_branch\<close> is a non-empty string, and the entry
  is then the filter for that one branch. \<^verbatim>\<open>unittest_workflows\<close> takes no branch filter;
  its descriptors carry the filter for master and nightly exactly when they are GPU jobs.
\<close>

theorem filters_presence:
  "(\<forall>d \<in> set (build_workflows_jobs prefix upload fb).
      (filters (snd d) \<noteq> None \<longleftrightarrow> truthy fb) \<and>
      (truthy fb \<longrightarrow> filters (snd d) = Some (gen_filter_branch_tree [the fb]))) \<and>
   (\<forall>d \<in> set unittest_workflows_jobs.
      (filters (snd d) \<noteq> None \<longleftrightarrow>
         fst d = ''unittest_linux_gpu'' \<or> fst d = ''unittest_windows_gpu'') \<and>
      (filters (snd d) \<noteq> None \<longrightarrow>
         filters (snd d) = Some (gen_filter_branch_tree [''master'', ''nightly''])))"
proof (intro conjI ballI)
  fix d assume "d \<in> set (build_workflows_jobs prefix upload fb)"
  then have f: "filters (snd d) = (if truthy fb then Some (gen_filter_branch_tree [the fb]) else None)"
    unfolding build_workflows_jobs_chains
    by (auto simp add: filters_generate(4) filters_build_workflow_pair simp del: truthy.simps)
  show "filters (snd d) \<noteq> None \<longleftrightarrow> truthy fb"
    by (simp add: f del: truthy.simps)
  show "truthy fb \<longrightarrow> filters (snd d) = Some (gen_filter_branch_tree [the fb])"
    by (simp add: f del: truthy.simps)
next
  fix d assume "d \<in> set unittest_workflows_jobs"
  then have f: "filters (snd d) =
        (if fst d = ''unittest_linux_gpu'' \<or> fst d = ''unittest_windows_gpu''
         then Some (gen_filter_branch_tree [''master'', ''nightly'']) else None)"
    by (auto simp add: unittest_workflows_jobs_value)
  show "filters (snd d) \<noteq> None \<longleftrightarrow>
         fst d = ''unittest_linux_gpu'' \<or> fst d = ''unittest_windows_gpu''"
    by (simp add: f)
  show "filters (snd d) \<noteq> None \<longrightarrow>
         filters (snd d) = Some (gen_filter_branch_tree [''master'', ''nightly''])"
    by (simp add: f)
qed

theorem filters_presence_witness:
  "build_workflows_jobs [] False (Some ''master'') ! 0 \<in> set (build_workflows_jobs [] False (Some ''master'')) \<and>
   truthy (Some ''master'') \<and>
   filters (snd (build_workflows_jobs [] False (Some ''master'') ! 0))
     = Some (gen_filter_branch_tree [''master'']) \<and>
   build_workflows_jobs [] False (Some []) ! 0 \<in> set (build_workflows_jobs [] False (Some [])) \<and>
   \<not> truthy (Some []) \<and>
   filters (snd (build_workflows_jobs [] False (Some []) ! 0)) = None \<and>
   unittest_workflows_jobs ! 5 \<in> set unittest_workflows_jobs \<and>
   fst (unittest_workflows_jobs ! 5) = ''unittest_linux_gpu'' \<and>
   filters (snd (unittest_workflows_jobs ! 5)) = Some (gen_filter_branch_tree [''master'', ''nightly'']) \<and>
   unittest_workflows_jobs ! 2 \<in> set unittest_workflows_jobs \<and>
   fst (unittest_workflows_jobs ! 2) = ''stylecheck'' \<and>
   filters (snd (unittest_workflows_jobs ! 2)) = None"
proof -
  have m1: "build_workflows_jobs [] False (Some ''master'') ! 0
              \<in> set (build_workflows_jobs [] False (Some ''master''))"
    by (rule nth_mem) (simp add: plain_jobs_prefix)
  have m2: "build_workflows_jobs [] False (Some []) ! 0 \<in> set (build_workflows_jobs [] False (Some []))"
    by (rule nth_mem) (simp add: plain_jobs_prefix)
  have m3: "unittest_workflows_jobs ! 5 \<in> set unittest_workflows_jobs"
    by (rule nth_mem) (simp add: unittest_workflows_jobs_value)
  have m4: "unittest_workflows_jobs ! 2 \<in> set unittest_workflows_jobs"
    by (rule nth_mem) (simp add: unittest_workflows_jobs_value)
  have k3: "fst (unittest_workflows_jobs ! 5) = ''unittest_linux_gpu''"
    and k4: "fst (unittest_workflows_jobs ! 2) = ''stylecheck''"
    by (simp_all add: unittest_workflows_jobs_value)
  have t1: "truthy (Some ''master'')" and t2: "\<not> truthy (Some [])"
    by simp_all
  note b = filters_presence [THEN conjunct1, rule_format]
  note u = filters_presence [THEN conjunct2, rule_format]
  from b [OF m1] t1
  have f1: "filters (snd (build_workflows_jobs [] False (Some ''master'') ! 0))
              = Some (gen_filter_branch_tree [''master''])"
    by simp
  from b [OF m2] t2
  have f2: "filters (snd (build_workflows_jobs [] False (Some []) ! 0)) = None"
    by simp
  from u [OF m3] k3
  have f3: "filters (snd (unittest_workflows_jobs ! 5))
              = Some (gen_filter_branch_tree [''master'', ''nightly''])"
    by simp
  from u [OF m4] k4
  have f4: "filters (snd (unittest_workflows_jobs ! 2)) = None"
    by simp
  from m1 m2 m3 m4 k3 k4 t1 t2 f1 f2 f3 f4 show ?thesis by blast
qed

text \<open>
  The sixth descriptor of \<^verbatim>\<open>unittest_workflows\<close>, a GPU job, carries a filter although
  the call has no branch filter to request.
\<close>

theorem unittest_gpu_filter_unrequested:
  "5 < length unittest_workflows_jobs \<and>
   fst (unittest_workflows_jobs ! 5) = ''unittest_linux_gpu'' \<and>
   filters (snd (unittest_workflows_jobs ! 5)) =
     Some \<lparr>branches_only = [''master'', ''nightly''],
           tags_only = ''/v[0-9]+('' @ [CHR 0x5C] @ ''.[0-9]+)*-rc[0-9]+/''\<rparr>"
  by (simp add: unittest_workflows_jobs_value gen_filter_branch_tree_def)

subsection \<open>Unrecognised dimension values\<close>

text \<open>
  C4, as the script has it. No dimension value makes generation abort. For every
  combination of strings \<^verbatim>\<open>build_workflow_pair\<close> returns a chain headed by the base descriptor with the formatted
  name, and an OS other than linux and macos gets no \<^verbatim>\<open>requires\<close> entry. The loop body of
  \<^verbatim>\<open>unittest_workflows\<close> appends a test descriptor for every OS and device string, and a
  device other than gpu gets no filter.
\<close>

theorem build_workflow_pair_never_aborts:
  "build_workflow_pair btype os_type pv fb prefix upload \<noteq> [] \<and>
   hd (build_workflow_pair btype os_type pv fb prefix upload) =
     generate_base_workflow (prefix @ ''binary_'' @ os_type @ ''_'' @ btype @ ''_py'' @ pv)
       pv fb os_type btype \<and>
   fst (hd (build_workflow_pair btype os_type pv fb prefix upload)) = ''binary_'' @ os_type @ ''_'' @ btype \<and>
   name (snd (hd (build_workflow_pair btype os_type pv fb prefix upload))) =
     prefix @ ''binary_'' @ os_type @ ''_'' @ btype @ ''_py'' @ pv \<and>
   (os_type \<noteq> ''linux'' \<and> os_type \<noteq> ''macos'' \<longrightarrow>
      requires (snd (hd (build_workflow_pair btype os_type pv fb prefix upload))) = None) \<and>
   length (unittest_step os_type device_type jobs (i, pv)) > length jobs \<and>
   take (length jobs) (unittest_step os_type device_type jobs (i, pv)) = jobs \<and>
   fst (unittest_step os_type device_type jobs (i, pv) ! length jobs) =
     ''unittest_'' @ os_type @ ''_'' @ device_type \<and>
   name (snd (unittest_step os_type device_type jobs (i, pv) ! length jobs)) =
     ''unittest_'' @ os_type @ ''_'' @ device_type @ ''_py'' @ pv \<and>
   (device_type \<noteq> ''gpu'' \<longrightarrow>
      filters (snd (unittest_step os_type device_type jobs (i, pv) ! length jobs)) = None)"
  by (simp add: build_workflow_pair_chain base_name_def fst_generate name_generate
        generate_base_workflow_def unittest_step_def Let_def nth_append)

theorem build_workflow_pair_never_aborts_witness:
  "''freebsd'' \<noteq> ''linux'' \<and> ''freebsd'' \<noteq> ''macos'' \<and>
   requires (snd (hd (build_workflow_pair ''wheel'' ''freebsd'' ''3.6'' None [] False))) = None \<and>
   fst (hd (build_workflow_pair ''wheel'' ''freebsd'' ''3.6'' None [] False)) = ''binary_freebsd_wheel'' \<and>
   ''tpu'' \<noteq> ''gpu'' \<and>
   fst (unittest_step ''freebsd'' ''tpu'' [] (0, ''3.6'') ! 0) = ''unittest_freebsd_tpu'' \<and>
   filters (snd (unittest_step ''freebsd'' ''tpu'' [] (0, ''3.6'') ! 0)) = None"
proof -
  note t = build_workflow_pair_never_aborts
    [where btype = "''wheel''" and os_type = "''freebsd''" and pv = "''3.6''" and fb = None
       and prefix = "[]" and upload = False and device_type = "''tpu''" and jobs = "[]" and i = 0,
     unfolded list.size(3)]
  have ne: "''freebsd'' \<noteq> ''linux''" "''freebsd'' \<noteq> ''macos''" "''tpu'' \<noteq> ''gpu''"
    by simp_all
  have r: "requires (snd (hd (build_workflow_pair ''wheel'' ''freebsd'' ''3.6'' None [] False))) = None"
    using t ne by blast
  have k: "fst (hd (build_workflow_pair ''wheel'' ''freebsd'' ''3.6'' None [] False))
             = ''binary_'' @ ''freebsd'' @ ''_'' @ ''wheel''"
    using t by blast
  have u: "fst (unittest_step ''freebsd'' ''tpu'' [] (0, ''3.6'') ! 0)
             = ''unittest_'' @ ''freebsd'' @ ''_'' @ ''tpu''"
    using t by blast
  have f: "filters (snd (unittest_step ''freebsd'' ''tpu'' [] (0, ''3.6'') ! 0)) = None"
    using t ne by blast
  from r k u f ne show ?thesis by simp
qed

text \<open>
  An OS string the script has no rule for yields a descriptor formatted like a windows
  one, and a device string it has no rule for yields one formatted like a cpu one.
\<close>

theorem unrecognised_dimension_emits_descriptor:
  "build_workflow_pair ''wheel'' ''freebsd'' ''3.6'' None [] False =
     [(''binary_freebsd_wheel'',
       \<lparr>name = ''binary_freebsd_wheel_py3.6'', python_version = Some ''3.6'',
        job_context = None, requires = None, filters = None\<rparr>)] \<and>
   unittest_step ''linux'' ''tpu'' [] (0, ''3.6'') =
     [(''unittest_linux_tpu'',
       \<lparr>name = ''unittest_linux_tpu_py3.6'', python_version = Some ''3.6'',
        job_context = None, requires = Some [''download_third_parties_nix''], filters = None\<rparr>)]"
  by (simp add: build_workflow_pair_def generate_base_workflow_def unittest_step_def Let_def)

subsection \<open>The download prerequisite\<close>

text \<open>
  C5. The sequence of \<^verbatim>\<open>build_workflows\<close> starts with the descriptor
  \<^verbatim>\<open>download_third_parties_nix\<close> and holds no other descriptor of that job; the descriptor
  after it, a linux build, lists it as its dependency, so it is present and a non-windows
  job downstream depends on it, for every prefix, upload flag and branch filter.
\<close>

theorem build_workflows_download_first:
  "build_workflows_jobs prefix upload fb \<noteq> [] \<and>
   is_download (hd (build_workflows_jobs prefix upload fb)) \<and>
   name (snd (hd (build_workflows_jobs prefix upload fb))) = ''download_third_parties_nix'' \<and>
   length (filter is_download (build_workflows_jobs prefix upload fb)) = 1 \<and>
   fst (build_workflows_jobs prefix upload fb ! 1) = ''binary_linux_wheel'' \<and>
   requires (snd (build_workflows_jobs prefix upload fb ! 1)) = Some [''download_third_parties_nix''] \<and>
   ((\<exists>d \<in> set (build_workflows_jobs prefix upload fb). is_download d) \<longleftrightarrow>
    (\<exists>d \<in> set (tl (build_workflows_jobs prefix upload fb)).
       \<not> startswith (fst d) ''binary_windows_'' \<and>
       requires (snd d) = Some [''download_third_parties_nix'']))"
proof -
  let ?J = "build_workflows_jobs prefix upload fb"
  let ?C = "concat (map (\<lambda>(btype, os_type, pv). build_workflow_pair btype os_type pv fb prefix upload)
               build_matrix)"
  obtain j where j: "build_download_job fb = [(''download_third_parties_nix'', j)]"
      and nj: "name j = ''download_third_parties_nix''"
    using build_download_job_single by blast
  have J: "?J = (''download_third_parties_nix'', j) # ?C"
    by (simp add: build_workflows_jobs_chains j)
  have ne: "?J \<noteq> []" and hd: "hd ?J = (''download_third_parties_nix'', j)"
    by (simp_all add: J)
  have dl: "is_download (hd ?J)" and nm: "name (snd (hd ?J)) = ''download_third_parties_nix''"
    by (simp_all add: hd nj is_download_def)
  have "filter is_download ?C = []"
    by (simp add: filter_concat filter_is_download_pair split_def comp_def)
  then have "filter is_download ?J = [(''download_third_parties_nix'', j)]"
    by (simp add: J is_download_def)
  then have one: "length (filter is_download ?J) = 1" by simp
  have key: "fst (?J ! 1) = ''binary_linux_wheel''"
    by (simp add: build_workflows_jobs_second fst_generate)
  have req: "requires (snd (?J ! 1)) = Some [''download_third_parties_nix'']"
    by (simp add: build_workflows_jobs_second generate_base_workflow_def Let_def)
  have "?J ! 1 \<in> set (tl ?J)"
    using build_workflows_jobs_second(2) [of prefix upload fb] ne
    by (cases ?J) (auto simp add: nth_Cons')
  with key req have rhs: "\<exists>d \<in> set (tl ?J). \<not> startswith (fst d) ''binary_windows_'' \<and>
       requires (snd d) = Some [''download_third_parties_nix'']"
    by (intro bexI [of _ "?J ! 1"]) simp_all
  from ne dl have lhs: "\<exists>d \<in> set ?J. is_download d"
    by (intro bexI [of _ "hd ?J"]) simp_all
  from ne dl nm one key req lhs rhs show ?thesis by blast
qed

subsection \<open>Unique names\<close>

text \<open>
  C6. No two descriptors in the sequence of \<^verbatim>\<open>build_workflows\<close>, and no two in the
  sequence of \<^verbatim>\<open>unittest_workflows\<close>, have the same \<^verbatim>\<open>name\<close>.
\<close>

theorem generated_names_distinct:
  "distinct (map (name \<circ> snd) (build_workflows_jobs prefix upload fb)) \<and>
   distinct (map (name \<circ> snd) unittest_workflows_jobs)"
proof
  show "distinct (map (name \<circ> snd) (build_workflows_jobs prefix upload fb))"
    by (cases upload; cases "fb = Some ''nightly''";
        simp add: build_workflows_jobs_def PYTHON_VERSIONS_def build_workflow_pair_chain
          name_build_download_job name_generate base_name_def download_name_neq)
  show "distinct (map (name \<circ> snd) unittest_workflows_jobs)"
    by (simp add: unittest_workflows_jobs_value)
qed

subsection \<open>The style check\<close>

text \<open>
  C9. The sequence of \<^verbatim>\<open>unittest_workflows\<close> holds one style-check descriptor, right
  after the linux cpu test of the first python version; the loop body adds a style-check
  descriptor only at index 0 of the linux cpu combination.
\<close>

theorem unittest_single_stylecheck:
  "length (filter is_stylecheck unittest_workflows_jobs) = 1 \<and>
   fst (unittest_workflows_jobs ! 1) = ''unittest_linux_cpu'' \<and>
   name (snd (unittest_workflows_jobs ! 1)) = ''unittest_linux_cpu_py'' @ hd PYTHON_VERSIONS \<and>
   unittest_workflows_jobs ! 2 =
     (''stylecheck'',
      \<lparr>name = ''stylecheck_py3.6'', python_version = Some ''3.6'', job_context = None,
       requires = None, filters = None\<rparr>) \<and>
   length (filter is_stylecheck (unittest_step os_type device_type jobs (i, pv))) =
     length (filter is_stylecheck jobs)
       + (if i = 0 \<and> os_type = ''linux'' \<and> device_type = ''cpu'' then 1 else 0)"
  by (simp add: unittest_workflows_jobs_value is_stylecheck_def PYTHON_VERSIONS_def
        unittest_step_def Let_def)

subsection \<open>The serialisation boundary\<close>

text \<open>
  \<^verbatim>\<open>indent\<close> on a serialiser that prints two lines: the lines are joined by a newline
  and the indentation, a negative indentation counts as none, and an indentation that does
  not fit a machine index fails before the serialiser runs.
\<close>

lemma indent_two_lines:
  "indent (\<lambda>ds. [CHR ''a'', CHR 0x0A, CHR ''b'', CHR 0x0A]) 2 data_list
     = Inr [CHR ''a'', CHR 0x0A, CHR '' '', CHR '' '', CHR ''b'']"
  "indent (\<lambda>ds. [CHR ''a'', CHR 0x0A, CHR ''b'', CHR 0x0A]) (- 1) data_list
     = Inr [CHR ''a'', CHR 0x0A, CHR ''b'']"
  by (simp_all add: indent_def str_mul_def splitlines_def is_linebreak_def numeral_2_eq_2)

lemma indent_out_of_range:
  "indentation < - (2 ^ 63) \<or> 2 ^ 63 \<le> indentation \<Longrightarrow>
     indent dump indentation data_list = Inl OverflowError"
  by (simp add: indent_def str_mul_def)

end
